theory Spec2Isabelle
  imports Main
begin

section \<open>The roving tab index hook of a grid cell\<close>

text \<open>
  The development embeds \<^verbatim>\<open>useRovingTabIndex\<close>, the hook that decides for one grid cell
  whether the cell container and the interactive content inside it take part in sequential
  keyboard navigation, and that redirects focus entering the cell to that content.

  \<^verbatim>\<open>
  export function useRovingTabIndex(isSelected: boolean) {
    const [isChildFocused, setIsChildFocused] = useState(false);

    if (isChildFocused && !isSelected) {
      setIsChildFocused(false);
    }

    function onFocus(event: React.FocusEvent<HTMLDivElement>) {
      const elementToFocus = event.currentTarget.querySelector<Element & HTMLOrSVGElement>(
        '[tabindex="0"]'
      );

      // Focus cell content when available instead of the cell itself
      if (elementToFocus !== null) {
        elementToFocus.focus({ preventScroll: true });
        setIsChildFocused(true);
      }
    }

    const isFocusable = isSelected && !isChildFocused;

    return {
      tabIndex: isFocusable ? 0 : -1,
      childTabIndex: isSelected ? 0 : -1,
      onFocus: isSelected ? onFocus : undefined
    };
  }
  \<close>

  The hook touches three things outside itself: the state cell that \<^verbatim>\<open>useState\<close> keeps
  for the component instance, the DOM subtree of the cell that \<^verbatim>\<open>querySelector\<close> searches,
  and the document's focus that \<^verbatim>\<open>focus\<close> moves. Each is modelled explicitly below.
\<close>

subsection \<open>The DOM subtree of a cell\<close>

text \<open>
  A node is an element (with an identity, a local name, its attributes as the markup lists
  them, and its children in document order) or a text node. The elements are HTML and SVG
  elements, the type that the source gives to the result of \<^verbatim>\<open>querySelector\<close>
  (\<^verbatim>\<open>Element & HTMLOrSVGElement\<close>): each of them has a \<^verbatim>\<open>focus\<close> method.
\<close>

datatype node =
  Element nat string "(string \<times> string) list" "node list"
| Text string

fun nodeId :: "node \<Rightarrow> nat" where
  "nodeId (Element i name as cs) = i"
| "nodeId (Text s) = 0"

fun getAttribute :: "node \<Rightarrow> string \<Rightarrow> string option" where
  "getAttribute (Element i name as cs) a = map_of as a"
| "getAttribute (Text s) a = None"

text \<open>
  The elements of a subtree in tree order (preorder, depth first): the element itself, then
  the elements below each child in turn. Text nodes are not elements.
\<close>

fun inclusiveDescendants :: "node \<Rightarrow> node list" where
  "inclusiveDescendants (Element i name as cs) =
     Element i name as cs # concat (map inclusiveDescendants cs)"
| "inclusiveDescendants (Text s) = []"

text \<open>The descendants of a node leave the node itself out.\<close>

fun descendants :: "node \<Rightarrow> node list" where
  "descendants (Element i name as cs) = concat (map inclusiveDescendants cs)"
| "descendants (Text s) = []"

text \<open>
  The only selector the hook uses is the attribute selector \<^verbatim>\<open>[name="value"]\<close>, which
  matches an element that carries the attribute with exactly that value.
\<close>

datatype selector = AttrEquals string string

fun matches :: "selector \<Rightarrow> node \<Rightarrow> bool" where
  "matches (AttrEquals a v) n = (getAttribute n a = Some v)"

text \<open>
  \<^verbatim>\<open>root.querySelector(sel)\<close> is the first descendant element of \<^verbatim>\<open>root\<close> in tree order
  that matches, and \<^verbatim>\<open>null\<close> (here \<open>None\<close>) when there is none.
\<close>

definition querySelector :: "node \<Rightarrow> selector \<Rightarrow> node option" where
  "querySelector root sel = find (matches sel) (descendants root)"

text \<open>The selector of the hook, \<^verbatim>\<open>'[tabindex="0"]'\<close>.\<close>

definition tabindex0 :: selector where
  "tabindex0 = AttrEquals ''tabindex'' ''0''"

subsection \<open>The focus of the document\<close>

text \<open>
  The document remembers which element has focus, and which elements a focus change has
  scrolled into view, in order. Whether an element can take focus is not for the hook to
  say: the platform decides it from the kind of the element and from whether it is
  disabled, hidden, inert or not rendered at all. The document lists the elements that can.
\<close>

record document =
  activeElement :: "nat option"
  scrolledIntoView :: "nat list"
  focusableAreas :: "nat list"

definition focusable :: "node \<Rightarrow> document \<Rightarrow> bool" where
  "focusable el d = (nodeId el \<in> set (focusableAreas d))"

record focus_options =
  preventScroll :: bool

text \<open>
  \<^verbatim>\<open>el.focus(options)\<close> on a focusable element makes it the active element and scrolls it
  into view unless \<^verbatim>\<open>preventScroll\<close> is set. On an element that cannot take focus the
  call returns without doing anything; it does not fail, and it does not tell its caller.
\<close>

definition focus :: "node \<Rightarrow> focus_options \<Rightarrow> document \<Rightarrow> document" where
  "focus el options d =
     (if \<not> focusable el d then d
      else if preventScroll options
      then d\<lparr>activeElement := Some (nodeId el)\<rparr>
      else d\<lparr>activeElement := Some (nodeId el),
             scrolledIntoView := scrolledIntoView d @ [nodeId el]\<rparr>)"

subsection \<open>The hook\<close>

text \<open>
  What the hook can change: the state cell behind \<^verbatim>\<open>useState(false)\<close>, which holds
  \<^verbatim>\<open>isChildFocused\<close> between evaluations, and the document.
\<close>

record env =
  memoizedState :: bool
  doc :: document

text \<open>\<^verbatim>\<open>setIsChildFocused(v)\<close> called from an event handler stores \<open>v\<close> in the cell.\<close>

definition setIsChildFocused :: "bool \<Rightarrow> env \<Rightarrow> env" where
  "setIsChildFocused v e = e\<lparr>memoizedState := v\<rparr>"

record focus_event =
  currentTarget :: node

text \<open>
  The inner function \<^verbatim>\<open>onFocus\<close>. It closes over \<^verbatim>\<open>setIsChildFocused\<close> only. After
  the call of \<^verbatim>\<open>focus\<close> it sets the state without looking at what the call did.
\<close>

definition useRovingTabIndex_onFocus :: "focus_event \<Rightarrow> env \<Rightarrow> env" where
  "useRovingTabIndex_onFocus event e =
     (case querySelector (currentTarget event) tabindex0 of
        None \<Rightarrow> e
      | Some elementToFocus \<Rightarrow>
          setIsChildFocused True
            (e\<lparr>doc := focus elementToFocus \<lparr>preventScroll = True\<rparr> (doc e)\<rparr>))"

text \<open>The object the hook returns; an absent handler (\<^verbatim>\<open>undefined\<close>) is \<open>None\<close>.\<close>

record hook_result =
  tabIndex :: int
  childTabIndex :: int
  onFocus :: "(focus_event \<Rightarrow> env \<Rightarrow> env) option"

text \<open>
  One pass through the body of the hook. \<open>isChildFocused\<close> is the value \<^verbatim>\<open>useState\<close> hands
  out for this pass; it is a constant of the pass, so the tab indices are computed from it
  even when the pass has called \<^verbatim>\<open>setIsChildFocused(false)\<close>. The second component is the
  state update the pass has requested, if any.
\<close>

definition useRovingTabIndex :: "bool \<Rightarrow> bool \<Rightarrow> hook_result \<times> bool option" where
  "useRovingTabIndex isSelected isChildFocused =
     (let update = (if isChildFocused \<and> \<not> isSelected then Some False else None);
          isFocusable = (isSelected \<and> \<not> isChildFocused)
      in (\<lparr>tabIndex = (if isFocusable then 0 else - 1),
           childTabIndex = (if isSelected then 0 else - 1),
           onFocus = (if isSelected then Some useRovingTabIndex_onFocus else None)\<rparr>,
          update))"

text \<open>
  An evaluation of the component. A state update requested while rendering makes the
  framework throw the result of that pass away and run the body again at once with the new
  state; the evaluation settles with the first pass that requests no update.
\<close>

function render :: "bool \<Rightarrow> env \<Rightarrow> hook_result \<times> env" where
  "render isSelected e =
     (case useRovingTabIndex isSelected (memoizedState e) of
        (out, None) \<Rightarrow> (out, e)
      | (out, Some v) \<Rightarrow> render isSelected (e\<lparr>memoizedState := v\<rparr>))"
  by pat_completeness auto
termination
  by (relation "measure (\<lambda>(s, e). if memoizedState e \<and> \<not> s then 1 else 0)")
     (auto simp: useRovingTabIndex_def Let_def split: if_splits)

declare render.simps [simp del]

subsection \<open>Runs of one cell\<close>

text \<open>
  A mounted cell: the hook's environment and the result of the latest evaluation, whose
  handler is the one attached to the cell container. Before the first evaluation nothing is
  attached and the state cell holds the initial value \<^verbatim>\<open>false\<close>.
\<close>

record cell =
  cellEnv :: env
  rendered :: "hook_result option"

definition mount :: "document \<Rightarrow> cell" where
  "mount d = \<lparr>cellEnv = \<lparr>memoizedState = False, doc = d\<rparr>, rendered = None\<rparr>"

text \<open>
  Two things happen to a cell: the grid evaluates it with the current selection, or a focus
  event reaches the cell container, which runs the attached handler when there is one.
\<close>

datatype action = Evaluate bool | FocusIn focus_event

fun step :: "cell \<Rightarrow> action \<Rightarrow> cell" where
  "step c (Evaluate isSelected) =
     (case render isSelected (cellEnv c) of
        (out, e') \<Rightarrow> \<lparr>cellEnv = e', rendered = Some out\<rparr>)"
| "step c (FocusIn event) =
     (case rendered c of
        None \<Rightarrow> c
      | Some out \<Rightarrow>
          (case onFocus out of
             None \<Rightarrow> c
           | Some handler \<Rightarrow> c\<lparr>cellEnv := handler event (cellEnv c)\<rparr>))"

declare step.simps [simp del]

definition run :: "cell \<Rightarrow> action list \<Rightarrow> cell" where
  "run c as = foldl step c as"

definition childFocused :: "cell \<Rightarrow> bool" where
  "childFocused c = memoizedState (cellEnv c)"

text \<open>The tab indices on the cell container after its latest evaluation.\<close>

definition containerTabIndex :: "cell \<Rightarrow> int option" where
  "containerTabIndex c = map_option tabIndex (rendered c)"

definition descendantTabIndex :: "cell \<Rightarrow> int option" where
  "descendantTabIndex c = map_option childTabIndex (rendered c)"

definition handlerAttached :: "cell \<Rightarrow> bool" where
  "handlerAttached c = (case rendered c of None \<Rightarrow> False | Some out \<Rightarrow> onFocus out \<noteq> None)"

subsection \<open>The cell of the browser test\<close>

text \<open>
  The test \<^verbatim>\<open>Focus child if it sets tabIndex\<close> renders, inside the selected cell, a button
  that takes the tab index handed to the renderer and a plain span:

  \<^verbatim>\<open>
  <button type="button" tabIndex={props.tabIndex}>value: {props.row.id}</button>
  <span>External Text</span>
  \<close>
\<close>

definition testButton :: node where
  "testButton = Element 1 ''button'' [(''type'', ''button''), (''tabindex'', ''0'')]
                  [Text ''value: 1'']"

definition testSpan :: node where
  "testSpan = Element 2 ''span'' [] [Text ''External Text'']"

definition testCell :: node where
  "testCell = Element 0 ''div'' [(''role'', ''gridcell''), (''tabindex'', ''0'')]
                [testButton, testSpan]"

text \<open>A cell whose content is text only.\<close>

definition plainCell :: node where
  "plainCell = Element 0 ''div'' [(''role'', ''gridcell''), (''tabindex'', ''0'')]
                 [Text ''1'']"

text \<open>
  The document of the test before anything has focus. The cell container and the button,
  which is enabled and rendered, can take focus; the span cannot.
\<close>

definition noFocus :: document where
  "noFocus = \<lparr>activeElement = None, scrolledIntoView = [], focusableAreas = [0, 1]\<rparr>"

text \<open>
  The same content with the span in front of the button, and with a title on the span
  whose value happens to be \<open>0\<close>.
\<close>

definition titledSpan :: node where
  "titledSpan = Element 2 ''span'' [(''title'', ''0'')] [Text ''External Text'']"

definition spanFirstCell :: node where
  "spanFirstCell = Element 0 ''div'' [(''role'', ''gridcell''), (''tabindex'', ''0'')]
                     [titledSpan, testButton]"

text \<open>
  The content of a cell that is not selected: the renderer was handed the tab index \<open>-1\<close>,
  so the button carries \<^verbatim>\<open>tabindex="-1"\<close>.
\<close>

definition unselectedButton :: node where
  "unselectedButton = Element 1 ''button'' [(''type'', ''button''), (''tabindex'', ''-1'')]
                        [Text ''value: 1'']"

definition unselectedContentCell :: node where
  "unselectedContentCell = Element 0 ''div'' [(''role'', ''gridcell''), (''tabindex'', ''-1'')]
                             [unselectedButton, titledSpan]"

text \<open>
  A selected cell whose content is a disabled checkbox that takes the tab index handed to
  the renderer. A disabled control cannot take focus, so the document in which the cell
  container has just received focus lists the container only.

  \<^verbatim>\<open>
  <input type="checkbox" disabled tabIndex={props.tabIndex} />
  \<close>
\<close>

definition disabledCheckbox :: node where
  "disabledCheckbox = Element 1 ''input''
     [(''type'', ''checkbox''), (''disabled'', []), (''tabindex'', ''0'')] []"

definition disabledCell :: node where
  "disabledCell = Element 0 ''div'' [(''role'', ''gridcell''), (''tabindex'', ''0'')]
                    [disabledCheckbox]"

definition containerFocused :: env where
  "containerFocused =
     \<lparr>memoizedState = False,
      doc = \<lparr>activeElement = Some 0, scrolledIntoView = [], focusableAreas = [0]\<rparr>\<rparr>"

text \<open>A focus event that reaches the container \<open>n\<close> of a cell.\<close>

definition focusOn :: "node \<Rightarrow> action" where
  "focusOn n = FocusIn \<lparr>currentTarget = n\<rparr>"

text \<open>
  The test cell after it has been mounted, evaluated as the selected cell and has received
  a focus event on its container.
\<close>

definition focusedTestCell :: cell where
  "focusedTestCell = run (mount noFocus) [Evaluate True, focusOn testCell]"

section \<open>Basic facts\<close>

lemma render_eq:
  "render isSelected e =
     (fst (useRovingTabIndex isSelected (memoizedState e \<and> isSelected)),
      e\<lparr>memoizedState := (memoizedState e \<and> isSelected)\<rparr>)"
proof (cases "memoizedState e \<and> \<not> isSelected")
  case True
  then have first: "render isSelected e = render isSelected (e\<lparr>memoizedState := False\<rparr>)"
    by (subst render.simps) (simp add: useRovingTabIndex_def)
  have second: "render isSelected (e\<lparr>memoizedState := False\<rparr>) =
      (fst (useRovingTabIndex isSelected False), e\<lparr>memoizedState := False\<rparr>)"
    by (subst render.simps) (simp add: useRovingTabIndex_def)
  from True first second show ?thesis
    by simp
next
  case False
  then show ?thesis
    by (auto simp add: render.simps [of isSelected e] useRovingTabIndex_def)
qed


lemma useRovingTabIndex_result:
  "fst (useRovingTabIndex isSelected isChildFocused) =
     \<lparr>tabIndex = (if isSelected \<and> \<not> isChildFocused then 0 else - 1),
      childTabIndex = (if isSelected then 0 else - 1),
      onFocus = (if isSelected then Some useRovingTabIndex_onFocus else None)\<rparr>"
  by (simp add: useRovingTabIndex_def)

lemma useRovingTabIndex_update:
  "snd (useRovingTabIndex isSelected isChildFocused) =
     (if isChildFocused \<and> \<not> isSelected then Some False else None)"
  by (simp add: useRovingTabIndex_def)

lemma render_result:
  "fst (render isSelected e) =
     \<lparr>tabIndex = (if isSelected \<and> \<not> memoizedState e then 0 else - 1),
      childTabIndex = (if isSelected then 0 else - 1),
      onFocus = (if isSelected then Some useRovingTabIndex_onFocus else None)\<rparr>"
  by (auto simp add: render_eq useRovingTabIndex_result)

lemma render_state:
  "snd (render isSelected e) = e\<lparr>memoizedState := (memoizedState e \<and> isSelected)\<rparr>"
  by (simp add: render_eq)

lemma step_Evaluate:
  "step c (Evaluate isSelected) =
     \<lparr>cellEnv = (cellEnv c)\<lparr>memoizedState := (childFocused c \<and> isSelected)\<rparr>,
      rendered = Some \<lparr>tabIndex = (if isSelected \<and> \<not> childFocused c then 0 else - 1),
                       childTabIndex = (if isSelected then 0 else - 1),
                       onFocus = (if isSelected then Some useRovingTabIndex_onFocus else None)\<rparr>\<rparr>"
  by (auto simp add: step.simps render_eq useRovingTabIndex_result childFocused_def)

lemma run_Nil: "run c [] = c"
  by (simp add: run_def)

lemma run_Cons: "run c (a # as) = run (step c a) as"
  by (simp add: run_def)

lemma run_snoc: "run c (as @ [a]) = step (run c as) a"
  by (simp add: run_def)

lemma descendants_testCell: "descendants testCell = [testButton, testSpan]"
  by (simp add: testCell_def testButton_def testSpan_def)

lemma querySelector_testCell: "querySelector testCell tabindex0 = Some testButton"
  by (simp add: querySelector_def descendants_testCell tabindex0_def)
     (simp add: testButton_def)

lemma querySelector_plainCell: "querySelector plainCell tabindex0 = None"
  by (simp add: querySelector_def plainCell_def tabindex0_def)

lemma focus_preventScroll:
  "focus el \<lparr>preventScroll = True\<rparr> d =
     (if focusable el d then d\<lparr>activeElement := Some (nodeId el)\<rparr> else d)"
  by (simp add: focus_def)

lemma onFocus_found:
  "querySelector (currentTarget event) tabindex0 = Some el \<Longrightarrow>
   useRovingTabIndex_onFocus event e =
     \<lparr>memoizedState = True,
      doc = (if focusable el (doc e) then (doc e)\<lparr>activeElement := Some (nodeId el)\<rparr>
             else doc e)\<rparr>"
  by (simp add: useRovingTabIndex_onFocus_def setIsChildFocused_def focus_preventScroll)

lemma onFocus_none:
  "querySelector (currentTarget event) tabindex0 = None \<Longrightarrow>
   useRovingTabIndex_onFocus event e = e"
  by (simp add: useRovingTabIndex_onFocus_def)

lemma step_FocusIn_detached:
  "\<not> handlerAttached c \<Longrightarrow> step c (FocusIn event) = c"
  by (auto simp add: step.simps handlerAttached_def split: option.splits)

lemma rendered_step_FocusIn: "rendered (step c (FocusIn event)) = rendered c"
  by (simp add: step.simps split: option.splits)

text \<open>
  Every result that a run leaves on the cell was produced by the hook, so the handler
  attached to the cell container, if any, is the hook's own.
\<close>

lemma rendered_run_mount:
  "rendered (run (mount d) as) = None \<or>
   (\<exists>s f. rendered (run (mount d) as) = Some (fst (useRovingTabIndex s f)))"
proof (induction as rule: rev_induct)
  case Nil
  show ?case by (simp add: run_Nil mount_def)
next
  case (snoc a as)
  show ?case
  proof (cases a)
    case (Evaluate s)
    have "rendered (step (run (mount d) as) (Evaluate s)) =
        Some (fst (useRovingTabIndex s (childFocused (run (mount d) as) \<and> s)))"
      by (simp add: step.simps render_eq childFocused_def)
    with Evaluate show ?thesis
      unfolding run_snoc by blast
  next
    case (FocusIn event)
    with snoc.IH show ?thesis
      unfolding run_snoc by (simp only: rendered_step_FocusIn)
  qed
qed

lemma onFocus_keeps_true:
  "memoizedState e \<Longrightarrow> memoizedState (useRovingTabIndex_onFocus event e)"
  by (simp add: useRovingTabIndex_onFocus_def setIsChildFocused_def split: option.splits)

lemma step_FocusIn_run_mount:
  "step (run (mount d) as) (FocusIn event) =
     (if handlerAttached (run (mount d) as)
      then (run (mount d) as)\<lparr>cellEnv := useRovingTabIndex_onFocus event (cellEnv (run (mount d) as))\<rparr>
      else run (mount d) as)"
  using rendered_run_mount [of d as]
  by (auto simp add: step.simps handlerAttached_def useRovingTabIndex_result
      split: option.splits if_splits)

lemma handlerAttached_step_Evaluate: "handlerAttached (step c (Evaluate s)) = s"
  by (simp add: step_Evaluate handlerAttached_def)

lemma handlerAttached_step_FocusIn:
  "handlerAttached (step c (FocusIn event)) = handlerAttached c"
  by (simp add: handlerAttached_def rendered_step_FocusIn)

lemma childFocused_run_mount_attached:
  "childFocused (run (mount d) as) \<Longrightarrow> handlerAttached (run (mount d) as)"
proof (induction as rule: rev_induct)
  case Nil
  then show ?case by (simp add: run_Nil mount_def childFocused_def)
next
  case (snoc a as)
  show ?case
  proof (cases a)
    case (Evaluate s)
    from snoc.prems have s
      unfolding Evaluate run_snoc by (simp add: step_Evaluate childFocused_def)
    then show ?thesis
      unfolding Evaluate run_snoc by (simp only: handlerAttached_step_Evaluate)
  next
    case (FocusIn event)
    show ?thesis
    proof (cases "handlerAttached (run (mount d) as)")
      case True
      with FocusIn show ?thesis
        by (simp add: run_snoc handlerAttached_step_FocusIn)
    next
      case False
      with FocusIn snoc show ?thesis
        by (simp add: run_snoc step_FocusIn_detached)
    qed
  qed
qed


lemma find_first_match:
  "\<forall>x\<in>set pre. \<not> P x \<Longrightarrow> P el \<Longrightarrow> find P (pre @ el # post) = Some el"
  by (induction pre) simp_all

lemma querySelector_first:
  assumes "descendants root = pre @ el # post"
    and "\<forall>x\<in>set pre. \<not> matches sel x"
    and "matches sel el"
  shows "querySelector root sel = Some el"
  using assms by (simp add: querySelector_def find_first_match)

lemma querySelector_absent:
  "\<forall>x\<in>set (descendants root). \<not> matches sel x \<Longrightarrow> querySelector root sel = None"
  by (simp add: querySelector_def find_None_iff)

lemma focusable_testButton:
  "focusable testButton d = (1 \<in> set (focusableAreas d))"
  by (simp add: focusable_def testButton_def)

lemma onFocus_testCell:
  "1 \<in> set (focusableAreas (doc e)) \<Longrightarrow>
   useRovingTabIndex_onFocus \<lparr>currentTarget = testCell\<rparr> e =
     \<lparr>memoizedState = True, doc = (doc e)\<lparr>activeElement := Some 1\<rparr>\<rparr>"
  using onFocus_found [of "\<lparr>currentTarget = testCell\<rparr>" testButton e]
  by (simp add: querySelector_testCell focusable_testButton) (simp add: testButton_def)

lemma onFocus_plainCell:
  "useRovingTabIndex_onFocus \<lparr>currentTarget = plainCell\<rparr> e = e"
  by (rule onFocus_none) (simp add: querySelector_plainCell)

lemma focusedTestCell_eq:
  "focusedTestCell =
     \<lparr>cellEnv = \<lparr>memoizedState = True,
                 doc = \<lparr>activeElement = Some 1, scrolledIntoView = [],
                        focusableAreas = [0, 1]\<rparr>\<rparr>,
      rendered = Some \<lparr>tabIndex = 0, childTabIndex = 0,
                       onFocus = Some useRovingTabIndex_onFocus\<rparr>\<rparr>"
  by (simp add: focusedTestCell_def run_Cons run_Nil step_Evaluate mount_def childFocused_def
      focusOn_def step.simps onFocus_testCell noFocus_def)

lemma matches_tabindex0:
  "matches tabindex0 n = (getAttribute n ''tabindex'' = Some ''0'')"
  by (simp add: tabindex0_def)

lemma onFocus_disabledCell:
  "useRovingTabIndex_onFocus \<lparr>currentTarget = disabledCell\<rparr> containerFocused =
     containerFocused\<lparr>memoizedState := True\<rparr>"
proof -
  have found: "querySelector (currentTarget \<lparr>currentTarget = disabledCell\<rparr>) tabindex0 =
      Some disabledCheckbox"
    by (simp add: querySelector_def disabledCell_def disabledCheckbox_def tabindex0_def)
  have "\<not> focusable disabledCheckbox (doc containerFocused)"
    by (simp add: focusable_def disabledCheckbox_def containerFocused_def)
  with onFocus_found [OF found, of containerFocused] show ?thesis
    by (simp add: containerFocused_def)
qed



section \<open>The properties of the controller\<close>

subsection \<open>Child focus implies selection\<close>

text \<open>
  Claim C1. After every evaluation of the controller, whatever happened to the cell before,
  \<open>childFocused\<close> holds only if the evaluation was made with \<open>selected = true\<close>. An
  evaluation entered with \<open>childFocused = true\<close> and \<open>selected = false\<close> settles with
  \<open>childFocused = false\<close> and a container tab index of \<open>-1\<close>. Between evaluations, along
  every run of a mounted cell, \<open>childFocused\<close> holds only while the handler of a selected
  evaluation is attached.
\<close>

theorem invariant_childFocused_implies_selected:
  "(childFocused (run c (as @ [Evaluate isSelected])) \<longrightarrow> isSelected) \<and>
   (childFocused c \<and> \<not> isSelected \<longrightarrow>
      \<not> childFocused (step c (Evaluate isSelected)) \<and>
      containerTabIndex (step c (Evaluate isSelected)) = Some (- 1)) \<and>
   (childFocused (run (mount d) as) \<longrightarrow> handlerAttached (run (mount d) as))"
proof (intro conjI impI)
  assume "childFocused (run c (as @ [Evaluate isSelected]))"
  then show isSelected
    by (simp add: run_snoc step_Evaluate childFocused_def)
next
  assume "childFocused c \<and> \<not> isSelected"
  then show "\<not> childFocused (step c (Evaluate isSelected))"
    by (simp add: step_Evaluate childFocused_def)
next
  assume "childFocused c \<and> \<not> isSelected"
  then show "containerTabIndex (step c (Evaluate isSelected)) = Some (- 1)"
    by (simp add: step_Evaluate containerTabIndex_def)
next
  assume "childFocused (run (mount d) as)"
  then show "handlerAttached (run (mount d) as)"
    by (rule childFocused_run_mount_attached)
qed

theorem invariant_childFocused_implies_selected_witness:
  "childFocused (run (mount noFocus) ([Evaluate True, focusOn testCell] @ [Evaluate True])) \<and>
   childFocused focusedTestCell \<and>
   \<not> childFocused (step focusedTestCell (Evaluate False)) \<and>
   containerTabIndex (step focusedTestCell (Evaluate False)) = Some (- 1) \<and>
   handlerAttached (run (mount noFocus) [Evaluate True, focusOn testCell])"
proof -
  have before: "childFocused focusedTestCell"
    by (simp add: focusedTestCell_eq childFocused_def)
  have still: "childFocused (run (mount noFocus) ([Evaluate True, focusOn testCell] @ [Evaluate True]))"
    unfolding run_snoc focusedTestCell_def [symmetric]
    by (simp add: step_Evaluate focusedTestCell_eq childFocused_def)
  from before have start: "childFocused (run (mount noFocus) [Evaluate True, focusOn testCell])"
    by (simp only: focusedTestCell_def)
  from before
    invariant_childFocused_implies_selected
      [of focusedTestCell "[Evaluate True, focusOn testCell]" False noFocus]
  have "\<not> childFocused (step focusedTestCell (Evaluate False)) \<and>
      containerTabIndex (step focusedTestCell (Evaluate False)) = Some (- 1) \<and>
      handlerAttached (run (mount noFocus) [Evaluate True, focusOn testCell])"
    using start by blast
  with before still show ?thesis
    by blast
qed


subsection \<open>The tab index of the container\<close>

text \<open>
  Claim C2. The container tab index that the controller returns is \<open>0\<close> exactly when
  \<open>selected\<close> is true and \<open>childFocused\<close> is false, and \<open>-1\<close> otherwise. This holds for a
  single pass through the body, for a settled evaluation (read against the state on entry
  and against the state it settles with), and for the result left on the cell. In
  particular a selected cell whose child has not taken focus, such as a freshly mounted one,
  gets \<open>0\<close>.
\<close>

theorem containerTabIndex_zero_iff:
  "(tabIndex (fst (useRovingTabIndex isSelected isChildFocused)) = 0) =
     (isSelected \<and> \<not> isChildFocused) \<and>
   (tabIndex (fst (useRovingTabIndex isSelected isChildFocused)) = - 1) =
     (\<not> (isSelected \<and> \<not> isChildFocused)) \<and>
   tabIndex (fst (render isSelected e)) =
     (if isSelected \<and> \<not> memoizedState e then 0 else - 1) \<and>
   tabIndex (fst (render isSelected e)) =
     (if isSelected \<and> \<not> memoizedState (snd (render isSelected e)) then 0 else - 1) \<and>
   containerTabIndex (step c (Evaluate isSelected)) =
     Some (if isSelected \<and> \<not> childFocused c then 0 else - 1) \<and>
   tabIndex (fst (useRovingTabIndex True False)) = 0 \<and>
   containerTabIndex (step (mount d) (Evaluate True)) = Some 0"
proof -
  have pass: "tabIndex (fst (useRovingTabIndex s f)) = (if s \<and> \<not> f then 0 else - 1)" for s f
    by (simp add: useRovingTabIndex_result)
  have settled: "tabIndex (fst (render isSelected e)) =
      (if isSelected \<and> \<not> memoizedState (snd (render isSelected e)) then 0 else - 1)"
    by (simp add: render_result render_state)
  have cell: "containerTabIndex (step k (Evaluate s)) =
      Some (if s \<and> \<not> childFocused k then 0 else - 1)" for k s
    by (simp add: step_Evaluate containerTabIndex_def)
  have mounted: "\<not> childFocused (mount d)"
    by (simp add: mount_def childFocused_def)
  show ?thesis
    using settled mounted by (simp add: pass cell render_result)
qed

subsection \<open>The tab index of the descendants\<close>

text \<open>
  Claim C3. The descendant tab index that the controller returns is \<open>0\<close> exactly when
  \<open>selected\<close> is true and \<open>-1\<close> otherwise, whatever \<open>childFocused\<close> is.
\<close>

theorem descendantTabIndex_zero_iff:
  "(childTabIndex (fst (useRovingTabIndex isSelected isChildFocused)) = 0) = isSelected \<and>
   (childTabIndex (fst (useRovingTabIndex isSelected isChildFocused)) = - 1) = (\<not> isSelected) \<and>
   childTabIndex (fst (render isSelected e)) = (if isSelected then 0 else - 1) \<and>
   descendantTabIndex (step c (Evaluate isSelected)) = Some (if isSelected then 0 else - 1)"
  by (simp add: useRovingTabIndex_result render_result step_Evaluate descendantTabIndex_def)

subsection \<open>A deselected cell\<close>

text \<open>
  Claim C4. An evaluation with \<open>selected = false\<close> returns \<open>-1\<close> for both tab indices and no
  focus handler, and \<open>childFocused\<close> is false after it. The focus handler is present exactly
  when \<open>selected\<close> is true.
\<close>

theorem deselected_outputs:
  "fst (useRovingTabIndex False isChildFocused) =
     \<lparr>tabIndex = - 1, childTabIndex = - 1, onFocus = None\<rparr> \<and>
   fst (render False e) = \<lparr>tabIndex = - 1, childTabIndex = - 1, onFocus = None\<rparr> \<and>
   \<not> memoizedState (snd (render False e)) \<and>
   containerTabIndex (step c (Evaluate False)) = Some (- 1) \<and>
   descendantTabIndex (step c (Evaluate False)) = Some (- 1) \<and>
   \<not> handlerAttached (step c (Evaluate False)) \<and>
   \<not> childFocused (step c (Evaluate False)) \<and>
   (onFocus (fst (useRovingTabIndex isSelected isChildFocused)) \<noteq> None) = isSelected \<and>
   (onFocus (fst (render isSelected e)) \<noteq> None) = isSelected \<and>
   handlerAttached (step c (Evaluate isSelected)) = isSelected"
  by (simp add: useRovingTabIndex_result render_result render_state step_Evaluate
      containerTabIndex_def descendantTabIndex_def handlerAttached_def childFocused_def)

subsection \<open>Focus entering the cell\<close>

text \<open>
  Claim C5, as amended. When the descendants of the cell container include an element
  whose \<^verbatim>\<open>tabindex\<close> attribute is \<open>0\<close>, the focus handler calls \<^verbatim>\<open>focus\<close> with
  \<^verbatim>\<open>preventScroll\<close> on the first of them in tree order and sets \<open>childFocused\<close> to true.
  Nothing is scrolled into view. The element becomes the active element when it can take
  focus; when it cannot, the focus stays where it was. When there is no such descendant
  the handler changes nothing, neither the focus nor \<open>childFocused\<close>. The handler has a
  result in every case.
\<close>

theorem onFocus_calls_focus_on_first_tabindex0:
  "(descendants (currentTarget event) = pre @ el # post \<and>
    (\<forall>x\<in>set pre. \<not> matches tabindex0 x) \<and> matches tabindex0 el \<longrightarrow>
      useRovingTabIndex_onFocus event e =
        \<lparr>memoizedState = True, doc = focus el \<lparr>preventScroll = True\<rparr> (doc e)\<rparr> \<and>
      scrolledIntoView (doc (useRovingTabIndex_onFocus event e)) = scrolledIntoView (doc e) \<and>
      (focusable el (doc e) \<longrightarrow>
         doc (useRovingTabIndex_onFocus event e) = (doc e)\<lparr>activeElement := Some (nodeId el)\<rparr>) \<and>
      (\<not> focusable el (doc e) \<longrightarrow> doc (useRovingTabIndex_onFocus event e) = doc e)) \<and>
   ((\<forall>x\<in>set (descendants (currentTarget event)). \<not> matches tabindex0 x) \<longrightarrow>
      useRovingTabIndex_onFocus event e = e) \<and>
   matches tabindex0 n = (getAttribute n ''tabindex'' = Some ''0'')"
proof (intro conjI impI)
  assume found: "descendants (currentTarget event) = pre @ el # post \<and>
    (\<forall>x\<in>set pre. \<not> matches tabindex0 x) \<and> matches tabindex0 el"
  then have first: "querySelector (currentTarget event) tabindex0 = Some el"
    by (simp add: querySelector_first)
  from onFocus_found [OF first, of e]
  show result: "useRovingTabIndex_onFocus event e =
      \<lparr>memoizedState = True, doc = focus el \<lparr>preventScroll = True\<rparr> (doc e)\<rparr>"
    by (simp add: focus_preventScroll)
  from result
  show "scrolledIntoView (doc (useRovingTabIndex_onFocus event e)) = scrolledIntoView (doc e)"
    by (simp add: focus_preventScroll)
  {
    assume "focusable el (doc e)"
    with result
    show "doc (useRovingTabIndex_onFocus event e) = (doc e)\<lparr>activeElement := Some (nodeId el)\<rparr>"
      by (simp add: focus_preventScroll)
  next
    assume "\<not> focusable el (doc e)"
    with result show "doc (useRovingTabIndex_onFocus event e) = doc e"
      by (simp add: focus_preventScroll)
  }
next
  assume "\<forall>x\<in>set (descendants (currentTarget event)). \<not> matches tabindex0 x"
  then have "querySelector (currentTarget event) tabindex0 = None"
    by (rule querySelector_absent)
  then show "useRovingTabIndex_onFocus event e = e"
    by (rule onFocus_none)
next
  show "matches tabindex0 n = (getAttribute n ''tabindex'' = Some ''0'')"
    by (rule matches_tabindex0)
qed

theorem onFocus_calls_focus_on_first_tabindex0_witness:
  "descendants spanFirstCell = [titledSpan] @ testButton # [] \<and>
   \<not> matches tabindex0 titledSpan \<and>
   matches tabindex0 testButton \<and>
   focusable testButton noFocus \<and>
   useRovingTabIndex_onFocus \<lparr>currentTarget = spanFirstCell\<rparr> \<lparr>memoizedState = False, doc = noFocus\<rparr> =
     \<lparr>memoizedState = True, doc = noFocus\<lparr>activeElement := Some 1\<rparr>\<rparr> \<and>
   descendants disabledCell = [] @ disabledCheckbox # [] \<and>
   matches tabindex0 disabledCheckbox \<and>
   \<not> focusable disabledCheckbox (doc containerFocused) \<and>
   useRovingTabIndex_onFocus \<lparr>currentTarget = disabledCell\<rparr> containerFocused =
     \<lparr>memoizedState = True, doc = doc containerFocused\<rparr> \<and>
   descendants unselectedContentCell = [unselectedButton, titledSpan] \<and>
   \<not> matches tabindex0 unselectedButton \<and>
   useRovingTabIndex_onFocus \<lparr>currentTarget = unselectedContentCell\<rparr>
       \<lparr>memoizedState = False, doc = noFocus\<rparr> =
     \<lparr>memoizedState = False, doc = noFocus\<rparr>"
proof -
  have span: "\<not> matches tabindex0 titledSpan"
    by (simp add: matches_tabindex0 titledSpan_def)
  have button: "matches tabindex0 testButton"
    by (simp add: matches_tabindex0 testButton_def)
  have checkbox: "matches tabindex0 disabledCheckbox"
    by (simp add: matches_tabindex0 disabledCheckbox_def)
  have unselected: "\<not> matches tabindex0 unselectedButton"
    by (simp add: matches_tabindex0 unselectedButton_def)
  have ds1: "descendants spanFirstCell = [titledSpan] @ testButton # []"
    by (simp add: spanFirstCell_def titledSpan_def testButton_def)
  have ds2: "descendants disabledCell = [] @ disabledCheckbox # []"
    by (simp add: disabledCell_def disabledCheckbox_def)
  have ds3: "descendants unselectedContentCell = [unselectedButton, titledSpan]"
    by (simp add: unselectedContentCell_def unselectedButton_def titledSpan_def)
  have can: "focusable testButton noFocus"
    by (simp add: focusable_testButton noFocus_def)
  have cannot: "\<not> focusable disabledCheckbox (doc containerFocused)"
    by (simp add: focusable_def disabledCheckbox_def containerFocused_def)
  have id: "nodeId testButton = 1"
    by (simp add: testButton_def)
  from ds1 span button can
    onFocus_calls_focus_on_first_tabindex0
      [of "\<lparr>currentTarget = spanFirstCell\<rparr>" "[titledSpan]" testButton "[]"
        "\<lparr>memoizedState = False, doc = noFocus\<rparr>"]
  have moved: "useRovingTabIndex_onFocus \<lparr>currentTarget = spanFirstCell\<rparr>
      \<lparr>memoizedState = False, doc = noFocus\<rparr> =
     \<lparr>memoizedState = True, doc = noFocus\<lparr>activeElement := Some 1\<rparr>\<rparr>"
    by (simp add: focus_preventScroll id)
  from ds2 checkbox cannot
    onFocus_calls_focus_on_first_tabindex0
      [of "\<lparr>currentTarget = disabledCell\<rparr>" "[]" disabledCheckbox "[]" containerFocused]
  have stayed: "useRovingTabIndex_onFocus \<lparr>currentTarget = disabledCell\<rparr> containerFocused =
     \<lparr>memoizedState = True, doc = doc containerFocused\<rparr>"
    by (simp add: focus_preventScroll)
  from ds3 span unselected
    onFocus_calls_focus_on_first_tabindex0
      [of "\<lparr>currentTarget = unselectedContentCell\<rparr>" _ _ _
        "\<lparr>memoizedState = False, doc = noFocus\<rparr>"]
  have noop: "useRovingTabIndex_onFocus \<lparr>currentTarget = unselectedContentCell\<rparr>
       \<lparr>memoizedState = False, doc = noFocus\<rparr> =
     \<lparr>memoizedState = False, doc = noFocus\<rparr>"
    by simp
  from ds1 span button can moved ds2 checkbox cannot stayed ds3 unselected noop
  show ?thesis
    by (intro conjI)
qed

text \<open>
  Claim C5 as it was stated says that the handler moves the focus to the first descendant
  with tab index \<open>0\<close>. On the cell with the disabled checkbox the handler finds the
  checkbox, but the focus stays on the cell container, and \<open>childFocused\<close> is set all the
  same.
\<close>

theorem onFocus_moves_focus_counterexample:
  "querySelector disabledCell tabindex0 = Some disabledCheckbox \<and>
   activeElement (doc containerFocused) = Some 0 \<and>
   nodeId disabledCheckbox = 1 \<and>
   activeElement (doc (useRovingTabIndex_onFocus \<lparr>currentTarget = disabledCell\<rparr> containerFocused)) =
     Some 0 \<and>
   memoizedState (useRovingTabIndex_onFocus \<lparr>currentTarget = disabledCell\<rparr> containerFocused)"
proof -
  have found: "querySelector disabledCell tabindex0 = Some disabledCheckbox"
    by (simp add: querySelector_def disabledCell_def disabledCheckbox_def tabindex0_def)
  have id: "nodeId disabledCheckbox = 1"
    by (simp add: disabledCheckbox_def)
  from found id show ?thesis
    by (simp add: onFocus_disabledCell) (simp add: containerFocused_def)
qed

subsection \<open>The reset and the outputs of the same evaluation\<close>

text \<open>
  Claim C6. The outputs of an evaluation with \<open>selected = false\<close> are those of an
  evaluation entered with \<open>childFocused = false\<close>: a stale \<open>childFocused\<close> does not show in
  what the evaluation returns. This holds for a single pass through the body and for a
  settled evaluation, whose outputs are the ones the body derives from the state after the
  reset.
\<close>

theorem reset_precedes_outputs:
  "fst (useRovingTabIndex False isChildFocused) = fst (useRovingTabIndex False False) \<and>
   fst (render False e) = fst (render False (e\<lparr>memoizedState := False\<rparr>)) \<and>
   rendered (step c (Evaluate False)) =
     rendered (step (c\<lparr>cellEnv := (cellEnv c)\<lparr>memoizedState := False\<rparr>\<rparr>) (Evaluate False)) \<and>
   render isSelected e =
     (fst (useRovingTabIndex isSelected (memoizedState (snd (render isSelected e)))),
      e\<lparr>memoizedState := (memoizedState e \<and> isSelected)\<rparr>)"
proof -
  have settled: "memoizedState (snd (render isSelected e)) = (memoizedState e \<and> isSelected)"
    by (simp add: render_state)
  have whole: "render isSelected e =
      (fst (useRovingTabIndex isSelected (memoizedState (snd (render isSelected e)))),
       e\<lparr>memoizedState := (memoizedState e \<and> isSelected)\<rparr>)"
    unfolding settled by (rule render_eq)
  have pass: "fst (useRovingTabIndex False isChildFocused) = fst (useRovingTabIndex False False)"
    by (simp add: useRovingTabIndex_result)
  have eval: "fst (render False e) = fst (render False (e\<lparr>memoizedState := False\<rparr>))"
    by (simp add: render_result)
  have cell: "rendered (step c (Evaluate False)) =
     rendered (step (c\<lparr>cellEnv := (cellEnv c)\<lparr>memoizedState := False\<rparr>\<rparr>) (Evaluate False))"
    by (simp add: step_Evaluate)
  from pass eval cell whole show ?thesis
    by (intro conjI)
qed

subsection \<open>The scenario of the browser test\<close>



subsection \<open>Evaluating twice\<close>

text \<open>
  Claim C8. Evaluating again with the same \<open>selected\<close> value returns the same outputs and
  leaves \<open>childFocused\<close> as the first evaluation left it. This holds for settled
  evaluations, and for single passes when the update of the first pass is applied before
  the second pass, which then requests none.
\<close>

theorem evaluation_idempotent:
  "render isSelected (snd (render isSelected e)) = render isSelected e \<and>
   step (step c (Evaluate isSelected)) (Evaluate isSelected) = step c (Evaluate isSelected) \<and>
   fst (useRovingTabIndex isSelected
         (case snd (useRovingTabIndex isSelected isChildFocused) of
            None \<Rightarrow> isChildFocused | Some v \<Rightarrow> v)) =
     fst (useRovingTabIndex isSelected isChildFocused) \<and>
   snd (useRovingTabIndex isSelected
         (case snd (useRovingTabIndex isSelected isChildFocused) of
            None \<Rightarrow> isChildFocused | Some v \<Rightarrow> v)) = None"
proof -
  have settle: "render isSelected (snd (render isSelected e)) = render isSelected e"
    by (auto simp add: render_eq useRovingTabIndex_result)
  have cell: "step (step c (Evaluate isSelected)) (Evaluate isSelected) =
      step c (Evaluate isSelected)"
    by (auto simp add: step_Evaluate childFocused_def)
  have pass: "fst (useRovingTabIndex isSelected
         (case snd (useRovingTabIndex isSelected isChildFocused) of
            None \<Rightarrow> isChildFocused | Some v \<Rightarrow> v)) =
     fst (useRovingTabIndex isSelected isChildFocused)"
    by (simp add: useRovingTabIndex_result useRovingTabIndex_update)
  have quiet: "snd (useRovingTabIndex isSelected
         (case snd (useRovingTabIndex isSelected isChildFocused) of
            None \<Rightarrow> isChildFocused | Some v \<Rightarrow> v)) = None"
    by (simp add: useRovingTabIndex_update)
  from settle cell pass quiet show ?thesis
    by (intro conjI)
qed

subsection \<open>Who sets and who clears the child focus\<close>

lemma childFocused_step_cleared:
  assumes before: "childFocused (run (mount d) as)"
    and after: "\<not> childFocused (step (run (mount d) as) a)"
  shows "a = Evaluate False"
proof (cases a)
  case (Evaluate s)
  with before after have "\<not> s"
    by (simp add: step_Evaluate childFocused_def)
  with Evaluate show ?thesis
    by simp
next
  case (FocusIn event)
  from before have "memoizedState (useRovingTabIndex_onFocus event (cellEnv (run (mount d) as)))"
    unfolding childFocused_def by (rule onFocus_keeps_true)
  with before have "childFocused (step (run (mount d) as) (FocusIn event))"
    by (simp add: step_FocusIn_run_mount childFocused_def)
  with after FocusIn show ?thesis
    by simp
qed

text \<open>
  Claim C9. The focus handler never turns \<open>childFocused\<close> from true to false. Along every
  run of a mounted cell, \<open>childFocused\<close> goes from true to false only at an evaluation with
  \<open>selected = false\<close>. A focus event on a cell without a descendant whose \<^verbatim>\<open>tabindex\<close>
  attribute is \<open>0\<close> leaves \<open>childFocused\<close> as it is.
\<close>

theorem childFocused_cleared_only_by_deselection:
  "(memoizedState e \<longrightarrow> memoizedState (useRovingTabIndex_onFocus event e)) \<and>
   (childFocused (run (mount d) as) \<and> \<not> childFocused (run (mount d) (as @ [a])) \<longrightarrow>
      a = Evaluate False) \<and>
   ((\<forall>x\<in>set (descendants (currentTarget event)). \<not> matches tabindex0 x) \<longrightarrow>
      useRovingTabIndex_onFocus event e = e \<and>
      childFocused (run (mount d) (as @ [FocusIn event])) = childFocused (run (mount d) as))"
proof (intro conjI impI)
  assume "memoizedState e"
  then show "memoizedState (useRovingTabIndex_onFocus event e)"
    by (rule onFocus_keeps_true)
next
  assume "childFocused (run (mount d) as) \<and> \<not> childFocused (run (mount d) (as @ [a]))"
  then show "a = Evaluate False"
    unfolding run_snoc by (blast intro: childFocused_step_cleared)
next
  assume "\<forall>x\<in>set (descendants (currentTarget event)). \<not> matches tabindex0 x"
  then have absent: "querySelector (currentTarget event) tabindex0 = None"
    by (rule querySelector_absent)
  then show "useRovingTabIndex_onFocus event e = e"
    by (rule onFocus_none)
  from absent show "childFocused (run (mount d) (as @ [FocusIn event])) = childFocused (run (mount d) as)"
    unfolding run_snoc by (simp add: step_FocusIn_run_mount onFocus_none)
qed

theorem childFocused_cleared_only_by_deselection_witness:
  "memoizedState (cellEnv focusedTestCell) \<and>
   memoizedState (useRovingTabIndex_onFocus \<lparr>currentTarget = plainCell\<rparr> (cellEnv focusedTestCell)) \<and>
   childFocused (run (mount noFocus) [Evaluate True, focusOn testCell]) \<and>
   \<not> childFocused (run (mount noFocus) ([Evaluate True, focusOn testCell] @ [Evaluate False])) \<and>
   descendants plainCell = [] \<and>
   childFocused (run (mount noFocus) ([Evaluate True, focusOn testCell] @ [FocusIn \<lparr>currentTarget = plainCell\<rparr>]))"
proof -
  have state: "memoizedState (cellEnv focusedTestCell)"
    by (simp add: focusedTestCell_eq)
  then have before: "childFocused (run (mount noFocus) [Evaluate True, focusOn testCell])"
    by (simp add: childFocused_def focusedTestCell_def)
  have after: "\<not> childFocused (run (mount noFocus) ([Evaluate True, focusOn testCell] @ [Evaluate False]))"
    unfolding run_snoc by (simp add: step_Evaluate childFocused_def)
  have none: "descendants plainCell = []"
    by (simp add: plainCell_def)
  note inst = childFocused_cleared_only_by_deselection
    [of "cellEnv focusedTestCell" "\<lparr>currentTarget = plainCell\<rparr>" noFocus
      "[Evaluate True, focusOn testCell]" "Evaluate False"]
  from inst state
  have kept: "memoizedState (useRovingTabIndex_onFocus \<lparr>currentTarget = plainCell\<rparr> (cellEnv focusedTestCell))"
    by blast
  from inst none before
  have same: "childFocused (run (mount noFocus) ([Evaluate True, focusOn testCell] @ [FocusIn \<lparr>currentTarget = plainCell\<rparr>]))"
    by simp
  from state kept before after none same show ?thesis
    by (intro conjI)
qed

subsection \<open>What the outputs depend on\<close>

text \<open>
  Claim C10. The outputs of an evaluation depend on \<open>selected\<close> and \<open>childFocused\<close> only:
  two evaluations with the same \<open>selected\<close> value and the same \<open>childFocused\<close> state return
  the same container tab index, the same descendant tab index and agree on whether the
  focus handler is present, whatever the document and the earlier result on the cell are.
\<close>

theorem outputs_determined_by_selected_and_childFocused:
  "(memoizedState e1 = memoizedState e2 \<longrightarrow>
      fst (render isSelected e1) = fst (render isSelected e2)) \<and>
   (childFocused c1 = childFocused c2 \<longrightarrow>
      containerTabIndex (step c1 (Evaluate isSelected)) =
        containerTabIndex (step c2 (Evaluate isSelected)) \<and>
      descendantTabIndex (step c1 (Evaluate isSelected)) =
        descendantTabIndex (step c2 (Evaluate isSelected)) \<and>
      handlerAttached (step c1 (Evaluate isSelected)) =
        handlerAttached (step c2 (Evaluate isSelected)) \<and>
      rendered (step c1 (Evaluate isSelected)) = rendered (step c2 (Evaluate isSelected)))"
proof (intro conjI impI)
  assume "memoizedState e1 = memoizedState e2"
  then show "fst (render isSelected e1) = fst (render isSelected e2)"
    by (simp add: render_result)
next
  assume same: "childFocused c1 = childFocused c2"
  then show out: "rendered (step c1 (Evaluate isSelected)) = rendered (step c2 (Evaluate isSelected))"
    by (simp add: step_Evaluate)
  from out show "containerTabIndex (step c1 (Evaluate isSelected)) =
      containerTabIndex (step c2 (Evaluate isSelected))"
    by (simp only: containerTabIndex_def)
  from out show "descendantTabIndex (step c1 (Evaluate isSelected)) =
      descendantTabIndex (step c2 (Evaluate isSelected))"
    by (simp only: descendantTabIndex_def)
  from out show "handlerAttached (step c1 (Evaluate isSelected)) =
      handlerAttached (step c2 (Evaluate isSelected))"
    by (simp only: handlerAttached_def)
qed

theorem outputs_determined_by_selected_and_childFocused_witness:
  "memoizedState (cellEnv (mount noFocus)) = memoizedState (cellEnv (step focusedTestCell (Evaluate False))) \<and>
   cellEnv (mount noFocus) \<noteq> cellEnv (step focusedTestCell (Evaluate False)) \<and>
   fst (render True (cellEnv (mount noFocus))) =
     fst (render True (cellEnv (step focusedTestCell (Evaluate False)))) \<and>
   childFocused (mount noFocus) = childFocused (step focusedTestCell (Evaluate False)) \<and>
   rendered (step (mount noFocus) (Evaluate True)) =
     rendered (step (step focusedTestCell (Evaluate False)) (Evaluate True)) \<and>
   containerTabIndex (step (mount noFocus) (Evaluate True)) =
     containerTabIndex (step (step focusedTestCell (Evaluate False)) (Evaluate True))"
proof -
  have same: "childFocused (mount noFocus) = childFocused (step focusedTestCell (Evaluate False))"
    by (simp add: step_Evaluate childFocused_def mount_def)
  then have same': "memoizedState (cellEnv (mount noFocus)) =
      memoizedState (cellEnv (step focusedTestCell (Evaluate False)))"
    by (simp only: childFocused_def)
  have differ: "cellEnv (mount noFocus) \<noteq> cellEnv (step focusedTestCell (Evaluate False))"
    by (simp add: step_Evaluate mount_def focusedTestCell_eq noFocus_def)
  note inst = outputs_determined_by_selected_and_childFocused
    [of "cellEnv (mount noFocus)" "cellEnv (step focusedTestCell (Evaluate False))" True
      "mount noFocus" "step focusedTestCell (Evaluate False)"]
  from inst same same' differ show ?thesis
    by blast
qed

end
